theory Spec2Isabelle
  imports Complex_Main
begin

section \<open>Mars landing fuel management: the monitoring pipeline of mars_landing.py\<close>

text \<open>
  The embedding follows \<^verbatim>\<open>src/mars_landing.py\<close> function by function.

  \<^item> Python floats are modelled as \<open>real\<close>: arithmetic is exact, there is no rounding,
    no NaN and no overflow. The one place where the source produces an infinity on purpose
    (\<^verbatim>\<open>float('inf')\<close> for the time to depletion) has its own type \<open>ext_float\<close>.
    What is proved is the branch structure of the code and the algebra of its formulas.
    A property decided by the rounding of a double is outside the model: which side of
    \<open>BURN_RATE_TOLERANCE\<close> a computed deviation falls on when the exact quotient is
    0.15 (as for 6.9 kg/s against a nominal 6.0) is such a property, and nothing below
    is stated about it.
  \<^item> Python's \<^verbatim>\<open>/\<close> raises \<^verbatim>\<open>ZeroDivisionError\<close> on a zero divisor, so every
    division of the source is \<open>py_truediv\<close>, and every function that divides returns
    \<open>py_error + result\<close>.
  \<^item> The methods of \<^verbatim>\<open>MarsLandingFuelSystem\<close> take the object as the record
    \<open>self\<close>; a method that assigns to a field returns the updated record.
  \<^item> \<^verbatim>\<open>time.time()\<close> and \<^verbatim>\<open>datetime.now()\<close> are inputs of the functions that
    read them.
\<close>

subsection \<open>Python primitives\<close>

datatype py_error = ZeroDivisionError

definition py_truediv :: "real \<Rightarrow> real \<Rightarrow> py_error + real" where
  "py_truediv a b = (if b = 0 then Inl ZeroDivisionError else Inr (a / b))"

text \<open>Sequencing of a computation that may raise: the first exception ends it.\<close>

definition py_bind :: "py_error + 'a \<Rightarrow> ('a \<Rightarrow> py_error + 'b) \<Rightarrow> py_error + 'b" where
  "py_bind r f = (case r of Inl e \<Rightarrow> Inl e | Inr v \<Rightarrow> f v)"

text \<open>\<^verbatim>\<open>d.get(k, default)\<close>: never raises.\<close>

definition dict_get :: "('k \<rightharpoonup> 'v) \<Rightarrow> 'k \<Rightarrow> 'v \<Rightarrow> 'v" where
  "dict_get d k dflt = (case d k of None \<Rightarrow> dflt | Some v \<Rightarrow> v)"

text \<open>
  A float that may be \<^verbatim>\<open>float('inf')\<close>. \<open>ext_less x y\<close> is \<^verbatim>\<open>x < y\<close> for a finite
  \<open>y\<close>: infinity is below no finite number.
\<close>

datatype ext_float = Fin real | PosInf

fun ext_less :: "ext_float \<Rightarrow> real \<Rightarrow> bool" where
  "ext_less (Fin x) y = (x < y)"
| "ext_less PosInf y = False"

subsection \<open>Constants\<close>

definition GRAVITY_MARS :: real where
  "GRAVITY_MARS = 3.71"

definition SAFE_RESERVE :: real where
  "SAFE_RESERVE = 100"

definition BURN_RATE_TOLERANCE :: real where
  "BURN_RATE_TOLERANCE = 0.15"

definition ALERT_THRESHOLD :: real where
  "ALERT_THRESHOLD = 30"

definition UPDATE_FREQUENCY :: real where
  "UPDATE_FREQUENCY = 0.5"

subsection \<open>Data structures\<close>

record MissionPhase =
  name :: string
  nominal_burn_rate :: real
  duration :: real
  gravity_loss_factor :: real

record ConsumptionData =
  actual_burn_rate :: real
  deviation_percent :: real
  anomaly_flag :: bool
  current_fuel :: real

text \<open>
  One entry of the breakdown list, the dict
  \<^verbatim>\<open>{"phase": ..., "fuel_required": ..., "duration": ...}\<close>.
\<close>

record BreakdownEntry =
  entry_phase :: string
  entry_fuel_required :: real
  entry_duration :: real

record FuelPrediction =
  required_fuel :: real
  with_margin :: real
  breakdown :: "BreakdownEntry list"
  confidence :: real

record SafetyEvaluation =
  status :: string
  fuel_margin :: real
  abort_capable :: bool
  time_remaining :: ext_float
  fuel_sufficient :: bool

record AlertPackage =
  warnings :: "string list"
  recommendations :: "string list"
  priority :: string

text \<open>The fields of a \<^verbatim>\<open>MarsLandingFuelSystem\<close> object, in the order \<^verbatim>\<open>__init__\<close> sets them.\<close>

record MarsLandingFuelSystem =
  previous_fuel_mass :: real
  previous_timestamp :: real
  mission_phase :: string
  alert_history :: "AlertPackage list"
  current_fuel_mass :: real
  altitude :: real
  velocity :: real

subsection \<open>Mission configuration\<close>

definition PHASE_BURN_RATES :: "string \<rightharpoonup> real" where
  "PHASE_BURN_RATES = map_of
     [(''powered_descent'', 8.0),
      (''constant_deceleration'', 6.0),
      (''final_approach'', 4.0),
      (''landing'', 12.0)]"

definition mk_phase :: "string \<Rightarrow> real \<Rightarrow> real \<Rightarrow> real \<Rightarrow> MissionPhase" where
  "mk_phase n r d g =
     \<lparr>name = n, nominal_burn_rate = r, duration = d, gravity_loss_factor = g\<rparr>"

definition REMAINING_MANEUVERS :: "string \<rightharpoonup> MissionPhase list" where
  "REMAINING_MANEUVERS = map_of
     [(''powered_descent'',
         [mk_phase ''constant_deceleration'' 6.0 40 0.08,
          mk_phase ''final_approach'' 4.0 20 0.05,
          mk_phase ''landing'' 12.0 10 0.03]),
      (''constant_deceleration'',
         [mk_phase ''final_approach'' 4.0 20 0.05,
          mk_phase ''landing'' 12.0 10 0.03]),
      (''final_approach'',
         [mk_phase ''landing'' 12.0 10 0.03]),
      (''landing'', [])]"

subsection \<open>The fuel management system\<close>

text \<open>\<^verbatim>\<open>__init__\<close>; \<open>now\<close> is the value of \<^verbatim>\<open>time.time()\<close>.\<close>

definition init :: "real \<Rightarrow> string \<Rightarrow> real \<Rightarrow> MarsLandingFuelSystem" where
  "init initial_fuel phase now =
     \<lparr>previous_fuel_mass = initial_fuel,
      previous_timestamp = now,
      mission_phase = phase,
      alert_history = [],
      current_fuel_mass = initial_fuel,
      altitude = 5000.0,
      velocity = 80.0\<rparr>"

text \<open>
  Subproblem 1. The time delta is replaced by 0.001 when it is not positive, then the
  consumption is divided by it; the deviation is taken against the nominal rate of the
  phase (6.0 for a phase that is not a key of the table). The two assignments at the end
  are the second component of the result.
\<close>

definition calculate_burn_rate ::
  "MarsLandingFuelSystem \<Rightarrow> real \<Rightarrow> real \<Rightarrow> py_error + (ConsumptionData \<times> MarsLandingFuelSystem)"
where
  "calculate_burn_rate self cur_fuel current_time =
     (let time_delta0 = current_time - previous_timestamp self;
          time_delta = (if time_delta0 \<le> 0 then 0.001 else time_delta0);
          fuel_consumed = previous_fuel_mass self - cur_fuel
      in py_bind (py_truediv fuel_consumed time_delta) (\<lambda>rate.
         let nominal = dict_get PHASE_BURN_RATES (mission_phase self) 6.0
         in py_bind (if nominal > 0 then py_truediv (rate - nominal) nominal else Inr 0.0)
              (\<lambda>deviation.
                 let anomaly_detected = (\<bar>deviation\<bar> > BURN_RATE_TOLERANCE);
                     self' = self\<lparr>previous_fuel_mass := cur_fuel,
                                  previous_timestamp := current_time\<rparr>
                 in Inr (\<lparr>actual_burn_rate = rate,
                           deviation_percent = deviation * 100,
                           anomaly_flag = anomaly_detected,
                           current_fuel = cur_fuel\<rparr>, self'))))"

text \<open>
  Subproblem 2. The loop over the remaining maneuvers carries the running total and the
  breakdown list built so far.
\<close>

fun maneuver_loop ::
  "real \<Rightarrow> MissionPhase list \<Rightarrow> real \<Rightarrow> BreakdownEntry list
     \<Rightarrow> py_error + (real \<times> BreakdownEntry list)"
where
  "maneuver_loop burn_rate [] total_required_fuel fuel_breakdown =
     Inr (total_required_fuel, fuel_breakdown)"
| "maneuver_loop burn_rate (maneuver # rest) total_required_fuel fuel_breakdown =
     py_bind (if nominal_burn_rate maneuver > 0
              then py_truediv burn_rate (nominal_burn_rate maneuver)
              else Inr 1.0)
       (\<lambda>burn_adjustment.
          let phase_fuel = duration maneuver * burn_rate * burn_adjustment;
              adjusted_fuel = phase_fuel * (1 + gravity_loss_factor maneuver)
          in maneuver_loop burn_rate rest (total_required_fuel + adjusted_fuel)
               (fuel_breakdown @
                  [\<lparr>entry_phase = name maneuver,
                    entry_fuel_required = adjusted_fuel,
                    entry_duration = duration maneuver\<rparr>]))"

definition predict_fuel_requirements ::
  "MarsLandingFuelSystem \<Rightarrow> real \<Rightarrow> bool \<Rightarrow> py_error + FuelPrediction"
where
  "predict_fuel_requirements self burn_rate anomaly_detected =
     (let remaining_maneuvers = dict_get REMAINING_MANEUVERS (mission_phase self) []
      in py_bind (maneuver_loop burn_rate remaining_maneuvers 0.0 [])
           (\<lambda>(total_required_fuel, fuel_breakdown).
              let uncertainty_margin =
                    (if anomaly_detected then total_required_fuel * 0.20
                     else total_required_fuel * 0.05);
                  total_with_margin = total_required_fuel + uncertainty_margin
              in py_bind (if total_required_fuel > 0
                          then py_bind (py_truediv uncertainty_margin total_required_fuel)
                                 (\<lambda>q. Inr ((1 - q) * 100))
                          else Inr 100.0)
                   (\<lambda>confidence_level.
                      Inr \<lparr>required_fuel = total_required_fuel,
                           with_margin = total_with_margin,
                           breakdown = fuel_breakdown,
                           confidence = confidence_level\<rparr>)))"

text \<open>Subproblem 3, with its helper \<^verbatim>\<open>_calculate_abort_to_orbit_fuel\<close>.\<close>

definition calculate_abort_to_orbit_fuel :: "MarsLandingFuelSystem \<Rightarrow> py_error + real" where
  "calculate_abort_to_orbit_fuel self =
     py_bind (py_truediv (altitude self) 5000.0) (\<lambda>a.
     py_bind (py_truediv (velocity self) 100.0) (\<lambda>velocity_factor.
       let altitude_factor = max 0 a;
           base_abort_fuel = 200;
           altitude_penalty = 50 * (1 - altitude_factor);
           velocity_penalty = 30 * velocity_factor
       in Inr (base_abort_fuel + altitude_penalty + velocity_penalty)))"

definition evaluate_safety_margins ::
  "MarsLandingFuelSystem \<Rightarrow> real \<Rightarrow> real \<Rightarrow> real \<Rightarrow> py_error + SafetyEvaluation"
where
  "evaluate_safety_margins self cur_fuel req_fuel burn_rate =
     (let margin = cur_fuel - req_fuel - SAFE_RESERVE
      in py_bind (calculate_abort_to_orbit_fuel self) (\<lambda>abort_maneuver_fuel.
         let capable = (cur_fuel \<ge> abort_maneuver_fuel + 50);
             st = (if margin \<ge> 0 \<and> capable then ''NOMINAL''
                   else if margin \<ge> - 50 \<or> capable then ''CAUTION''
                   else ''CRITICAL'')
         in py_bind (if burn_rate > 0
                     then py_bind (py_truediv cur_fuel burn_rate) (\<lambda>q. Inr (Fin q))
                     else Inr PosInf)
              (\<lambda>time_to_depletion.
                 Inr \<lparr>status = st,
                      fuel_margin = margin,
                      abort_capable = capable,
                      time_remaining = time_to_depletion,
                      fuel_sufficient = (margin \<ge> 0)\<rparr>)))"

text \<open>
  Subproblem 4. The two format specifications of the f-strings, \<^verbatim>\<open>.1f\<close> and
  \<^verbatim>\<open>+.1f\<close>, are the parameters \<open>fmt\<close> and \<open>fmt_signed\<close>: what is proved holds for
  every rendering of the numbers. \<open>warnings1\<close> to \<open>warnings4\<close> and \<open>recs1\<close> to
  \<open>recs4\<close> are the two lists after each rule of the source that appends to them. The time-critical rule compares with \<^verbatim>\<open><\<close>, which is false
  for an infinite time, so the number it prints is finite.
\<close>

definition generate_alerts ::
  "(real \<Rightarrow> string) \<Rightarrow> (real \<Rightarrow> string) \<Rightarrow> SafetyEvaluation \<Rightarrow> ConsumptionData
     \<Rightarrow> FuelPrediction \<Rightarrow> AlertPackage"
where
  "generate_alerts fmt fmt_signed safety_eval consumption_data prediction =
     (let (warnings1, recs1) =
            (if \<not> fuel_sufficient safety_eval
             then ([''CRITICAL: Insufficient fuel for nominal landing'',
                    ''DEFICIT: '' @ fmt \<bar>fuel_margin safety_eval\<bar> @ '' kg shortfall''],
                   if abort_capable safety_eval
                   then [''IMMEDIATE: Consider abort to orbit'']
                   else [''EMERGENCY: Optimize trajectory NOW'',
                         ''Consider emergency landing procedures''])
             else ([], []));
          warnings2 =
            (if \<not> abort_capable safety_eval \<and> status safety_eval \<noteq> ''CRITICAL''
             then warnings1 @ [''WARNING: Abort-to-orbit window closing'']
             else warnings1);
          (warnings3, recs3) =
            (if anomaly_flag consumption_data
             then (warnings2 @
                     [''ALERT: Burn rate '' @ fmt_signed (deviation_percent consumption_data)
                        @ ''% from nominal''],
                   recs1 @ [''Investigate thruster performance''])
             else (warnings2, recs1));
          warnings4 =
            (if ext_less (time_remaining safety_eval) ALERT_THRESHOLD
             then warnings3 @
                    [''TIME CRITICAL: ''
                       @ (case time_remaining safety_eval of Fin t \<Rightarrow> fmt t | PosInf \<Rightarrow> ''inf'')
                       @ ''s to depletion'']
             else warnings3);
          recs4 =
            (if status safety_eval = ''NOMINAL'' \<and> length warnings4 = 0
             then recs3 @ [''Continue nominal descent profile'']
             else recs3)
      in \<lparr>warnings = warnings4, recommendations = recs4, priority = status safety_eval\<rparr>)"

text \<open>
  The monitoring cycle. The returned dict is the list of its items in the order of the
  dict literal; \<open>current_time\<close> is \<^verbatim>\<open>time.time()\<close> and \<open>stamp\<close> the formatted
  \<^verbatim>\<open>datetime.now()\<close>.
\<close>

datatype py_value =
    Str string
  | Float real
  | ExtFloat ext_float
  | Bool bool
  | StrList "string list"

definition monitor_cycle ::
  "(real \<Rightarrow> string) \<Rightarrow> (real \<Rightarrow> string) \<Rightarrow> MarsLandingFuelSystem \<Rightarrow> real \<Rightarrow> string
     \<Rightarrow> py_error + ((string \<times> py_value) list \<times> MarsLandingFuelSystem)"
where
  "monitor_cycle fmt fmt_signed self current_time stamp =
     py_bind (calculate_burn_rate self (current_fuel_mass self) current_time)
       (\<lambda>(consumption_data, self1).
     py_bind (predict_fuel_requirements self1 (actual_burn_rate consumption_data)
                (anomaly_flag consumption_data))
       (\<lambda>fuel_prediction.
     py_bind (evaluate_safety_margins self1 (current_fuel consumption_data)
                (with_margin fuel_prediction) (actual_burn_rate consumption_data))
       (\<lambda>safety_status.
          let alerts = generate_alerts fmt fmt_signed safety_status consumption_data
                         fuel_prediction;
              fuel_at_touchdown =
                current_fuel consumption_data - required_fuel fuel_prediction
          in Inr ([(''timestamp'', Str stamp),
                   (''mission_phase'', Str (mission_phase self1)),
                   (''status'', Str (status safety_status)),
                   (''current_fuel'', Float (current_fuel consumption_data)),
                   (''burn_rate'', Float (actual_burn_rate consumption_data)),
                   (''burn_rate_deviation'', Float (deviation_percent consumption_data)),
                   (''anomaly_detected'', Bool (anomaly_flag consumption_data)),
                   (''required_fuel'', Float (required_fuel fuel_prediction)),
                   (''fuel_margin'', Float (fuel_margin safety_status)),
                   (''fuel_at_touchdown'', Float fuel_at_touchdown),
                   (''time_remaining'', ExtFloat (time_remaining safety_status)),
                   (''abort_capable'', Bool (abort_capable safety_status)),
                   (''confidence'', Float (confidence fuel_prediction)),
                   (''warnings'', StrList (warnings alerts)),
                   (''recommendations'', StrList (recommendations alerts)),
                   (''altitude'', Float (altitude self1)),
                   (''velocity'', Float (velocity self1))],
                  self1))))"

text \<open>Simulation methods.\<close>

definition update_sensors ::
  "MarsLandingFuelSystem \<Rightarrow> real \<Rightarrow> real \<Rightarrow> real \<Rightarrow> MarsLandingFuelSystem"
where
  "update_sensors self fuel_delta altitude_delta velocity_delta =
     self\<lparr>current_fuel_mass := max 0 (current_fuel_mass self + fuel_delta),
          altitude := max 0 (altitude self + altitude_delta),
          velocity := max 0 (velocity self + velocity_delta)\<rparr>"

definition set_mission_phase :: "MarsLandingFuelSystem \<Rightarrow> string \<Rightarrow> MarsLandingFuelSystem" where
  "set_mission_phase self phase =
     (if phase \<in> dom PHASE_BURN_RATES then self\<lparr>mission_phase := phase\<rparr> else self)"

section \<open>Properties\<close>

subsection \<open>Auxiliary facts\<close>

lemma py_bind_Inr [simp]: "py_bind (Inr v) f = f v"
  by (simp add: py_bind_def)

lemma py_bind_Inl [simp]: "py_bind (Inl e) f = Inl e"
  by (simp add: py_bind_def)

lemma dom_PHASE_BURN_RATES:
  "dom PHASE_BURN_RATES =
     {''powered_descent'', ''constant_deceleration'', ''final_approach'', ''landing''}"
  unfolding PHASE_BURN_RATES_def by (simp add: dom_map_of_conv_image_fst insert_commute)

text \<open>The two tables of the mission profile have the same keys.\<close>

lemma dom_REMAINING_MANEUVERS: "dom REMAINING_MANEUVERS = dom PHASE_BURN_RATES"
  unfolding REMAINING_MANEUVERS_def PHASE_BURN_RATES_def
  by (simp add: dom_map_of_conv_image_fst)

text \<open>Every nominal rate the estimator can look up is positive, the default included.\<close>

lemma nominal_positive: "0 < dict_get PHASE_BURN_RATES phase 6.0"
  unfolding dict_get_def PHASE_BURN_RATES_def by simp

text \<open>Every maneuver of the table has a positive rate and non-negative duration and loss.\<close>

lemma remaining_maneuvers_wellformed:
  "\<forall>m \<in> set (dict_get REMAINING_MANEUVERS phase []).
     0 < nominal_burn_rate m \<and> 0 \<le> duration m \<and> 0 \<le> gravity_loss_factor m"
  by (simp add: dict_get_def REMAINING_MANEUVERS_def mk_phase_def)

subsection \<open>Closed forms: no operation of the pipeline raises\<close>

lemma calculate_burn_rate_eq:
  "calculate_burn_rate self cur_fuel current_time =
     (let time_delta = (if current_time - previous_timestamp self \<le> 0 then 0.001
                        else current_time - previous_timestamp self);
          rate = (previous_fuel_mass self - cur_fuel) / time_delta;
          nominal = dict_get PHASE_BURN_RATES (mission_phase self) 6.0;
          deviation = (rate - nominal) / nominal
      in Inr (\<lparr>actual_burn_rate = rate,
                deviation_percent = deviation * 100,
                anomaly_flag = (\<bar>deviation\<bar> > BURN_RATE_TOLERANCE),
                current_fuel = cur_fuel\<rparr>,
              self\<lparr>previous_fuel_mass := cur_fuel, previous_timestamp := current_time\<rparr>))"
proof -
  have n: "0 < dict_get PHASE_BURN_RATES (mission_phase self) 6.0"
    by (rule nominal_positive)
  show ?thesis
    using n by (simp add: calculate_burn_rate_def py_truediv_def Let_def)
qed

lemma maneuver_loop_returns:
  "\<exists>t b. maneuver_loop burn_rate ms acc bd = Inr (t, b)"
  by (induction ms arbitrary: acc bd) (simp_all add: py_truediv_def Let_def)

text \<open>
  With positive nominal rates the cost of a maneuver is
  \<open>duration * burn_rate\<^sup>2 / nominal * (1 + loss)\<close>, which is not negative whatever the sign
  of the burn rate; so the running total never decreases.
\<close>

lemma maneuver_loop_nonneg:
  "\<forall>m \<in> set ms. 0 < nominal_burn_rate m \<and> 0 \<le> duration m \<and> 0 \<le> gravity_loss_factor m
   \<Longrightarrow> 0 \<le> acc
   \<Longrightarrow> \<exists>t b. maneuver_loop burn_rate ms acc bd = Inr (t, b) \<and> 0 \<le> t"
proof (induction ms arbitrary: acc bd)
  case Nil
  then show ?case by simp
next
  case (Cons m ms)
  have n: "0 < nominal_burn_rate m" and d: "0 \<le> duration m"
    and g: "0 \<le> gravity_loss_factor m"
    using Cons.prems(1) by simp_all
  have rest: "\<forall>m \<in> set ms. 0 < nominal_burn_rate m \<and> 0 \<le> duration m
                \<and> 0 \<le> gravity_loss_factor m"
    using Cons.prems(1) by simp
  have "0 \<le> burn_rate * burn_rate / nominal_burn_rate m"
    using n by (intro divide_nonneg_pos) simp_all
  then have a: "0 \<le> burn_rate * (burn_rate / nominal_burn_rate m)"
    by simp
  have "0 \<le> duration m * (burn_rate * (burn_rate / nominal_burn_rate m))"
    using d a by (rule mult_nonneg_nonneg)
  then have b: "0 \<le> duration m * burn_rate * (burn_rate / nominal_burn_rate m)"
    by (simp only: mult.assoc)
  have g1: "0 \<le> 1 + gravity_loss_factor m"
    using g by simp
  have "0 \<le> duration m * burn_rate * (burn_rate / nominal_burn_rate m)
               * (1 + gravity_loss_factor m)"
    using b g1 by (rule mult_nonneg_nonneg)
  then have "0 \<le> acc + duration m * burn_rate * (burn_rate / nominal_burn_rate m)
                    * (1 + gravity_loss_factor m)"
    using Cons.prems(2) by linarith
  from Cons.IH [OF rest this] n show ?case
    by (simp add: py_truediv_def Let_def)
qed

lemma predict_fuel_requirements_returns:
  "\<exists>p. predict_fuel_requirements self burn_rate anomaly = Inr p"
proof -
  obtain t b where
    "maneuver_loop burn_rate (dict_get REMAINING_MANEUVERS (mission_phase self) []) 0 []
       = Inr (t, b)"
    using maneuver_loop_returns by blast
  then show ?thesis
    by (simp add: predict_fuel_requirements_def py_truediv_def Let_def)
qed

lemma calculate_abort_to_orbit_fuel_eq:
  "calculate_abort_to_orbit_fuel self =
     Inr (200 + 50 * (1 - max 0 (altitude self / 5000)) + 30 * (velocity self / 100))"
  by (simp add: calculate_abort_to_orbit_fuel_def py_truediv_def Let_def)

lemma evaluate_safety_margins_eq:
  "evaluate_safety_margins self cur_fuel req_fuel burn_rate =
     Inr \<lparr>status =
            (if cur_fuel - req_fuel - SAFE_RESERVE \<ge> 0
                \<and> cur_fuel \<ge> 200 + 50 * (1 - max 0 (altitude self / 5000))
                               + 30 * (velocity self / 100) + 50
             then ''NOMINAL''
             else if cur_fuel - req_fuel - SAFE_RESERVE \<ge> - 50
                \<or> cur_fuel \<ge> 200 + 50 * (1 - max 0 (altitude self / 5000))
                               + 30 * (velocity self / 100) + 50
             then ''CAUTION'' else ''CRITICAL''),
          fuel_margin = cur_fuel - req_fuel - SAFE_RESERVE,
          abort_capable =
            (cur_fuel \<ge> 200 + 50 * (1 - max 0 (altitude self / 5000))
                           + 30 * (velocity self / 100) + 50),
          time_remaining = (if burn_rate > 0 then Fin (cur_fuel / burn_rate) else PosInf),
          fuel_sufficient = (cur_fuel - req_fuel - SAFE_RESERVE \<ge> 0)\<rparr>"
  by (simp add: evaluate_safety_margins_def calculate_abort_to_orbit_fuel_eq
      py_truediv_def Let_def)

subsection \<open>Safety evaluator\<close>

text \<open>
  C1. For every current fuel, margined requirement, burn rate and state,
  \<open>evaluate_safety_margins\<close> returns a result whose status is one of the three labels
  NOMINAL, CAUTION, CRITICAL: NOMINAL exactly when the fuel margin is at least 0 and the
  abort is possible, CAUTION exactly when that fails but the margin is at least -50 or
  the abort is possible, CRITICAL exactly when both fail. The three conditions exclude
  one another and the labels are different strings, so exactly one label is returned.
  \<open>fuel_sufficient\<close> is \<open>fuel_margin \<ge> 0\<close>, whatever the abort capability. The margin
  and the abort capability are the ones the source computes from its inputs.
\<close>

theorem evaluate_safety_margins_status:
  "\<exists>r. evaluate_safety_margins self cur_fuel req_fuel burn_rate = Inr r
     \<and> fuel_margin r = cur_fuel - req_fuel - SAFE_RESERVE
     \<and> abort_capable r =
         (cur_fuel \<ge> 200 + 50 * (1 - max 0 (altitude self / 5000))
                        + 30 * (velocity self / 100) + 50)
     \<and> status r \<in> {''NOMINAL'', ''CAUTION'', ''CRITICAL''}
     \<and> (status r = ''NOMINAL'' \<longleftrightarrow> fuel_margin r \<ge> 0 \<and> abort_capable r)
     \<and> (status r = ''CAUTION'' \<longleftrightarrow>
          \<not> (fuel_margin r \<ge> 0 \<and> abort_capable r) \<and> (fuel_margin r \<ge> - 50 \<or> abort_capable r))
     \<and> (status r = ''CRITICAL'' \<longleftrightarrow>
          \<not> (fuel_margin r \<ge> 0 \<and> abort_capable r)
          \<and> \<not> (fuel_margin r \<ge> - 50 \<or> abort_capable r))
     \<and> fuel_sufficient r = (fuel_margin r \<ge> 0)"
  unfolding evaluate_safety_margins_eq by auto

text \<open>
  C5. For every current fuel and burn rate, \<open>evaluate_safety_margins\<close> returns (it does
  not raise \<open>ZeroDivisionError\<close>); the time remaining is the quotient
  \<open>current_fuel / burn_rate\<close> when the burn rate is positive, and the infinite
  sentinel, which differs from every finite value, when the burn rate is zero or negative.
\<close>

theorem evaluate_safety_margins_time_remaining:
  "(burn_rate > 0 \<longrightarrow>
      (\<exists>r. evaluate_safety_margins self cur_fuel req_fuel burn_rate = Inr r
         \<and> time_remaining r = Fin (cur_fuel / burn_rate)))
   \<and> (burn_rate \<le> 0 \<longrightarrow>
      (\<exists>r. evaluate_safety_margins self cur_fuel req_fuel burn_rate = Inr r
         \<and> time_remaining r = PosInf \<and> (\<forall>x. time_remaining r \<noteq> Fin x)))"
  unfolding evaluate_safety_margins_eq by simp

theorem evaluate_safety_margins_time_remaining_witness:
  "(2::real) > 0 \<and> (0::real) \<le> 0
   \<and> (\<exists>r. evaluate_safety_margins (init 118 ''landing'' 0) 112 0 2 = Inr r
         \<and> time_remaining r = Fin 56)
   \<and> (\<exists>r. evaluate_safety_margins (init 118 ''landing'' 0) 112 0 0 = Inr r
         \<and> time_remaining r = PosInf)"
  using evaluate_safety_margins_time_remaining [of 2 "init 118 ''landing'' 0" 112 0]
    evaluate_safety_margins_time_remaining [of 0 "init 118 ''landing'' 0" 112 0]
  by auto

subsection \<open>Consumption estimator\<close>

text \<open>
  C2, as amended. For every fuel reading \<open>f\<close> and timestamp \<open>t\<close>,
  \<open>calculate_burn_rate\<close> returns (no error is raised) and the rate is
  \<open>(previous_fuel - f) / dt\<close>, where \<open>dt\<close> is \<open>t - previous_timestamp\<close> when that
  difference is positive and 0.001 when it is zero or negative. A positive difference
  below 0.001 is used as it is: \<open>dt\<close> is not \<open>max (t - previous_timestamp) 0.001\<close>.
\<close>

theorem calculate_burn_rate_rate:
  "\<exists>c self'. calculate_burn_rate self f t = Inr (c, self')
     \<and> actual_burn_rate c =
         (previous_fuel_mass self - f)
           / (if t - previous_timestamp self \<le> 0 then 0.001 else t - previous_timestamp self)"
  by (simp add: calculate_burn_rate_eq Let_def)

text \<open>
  C2 as stated fails where the time delta lies strictly between 0 and 0.001. With
  previous fuel \<open>3/512\<close> at time 0 and a reading of 0 at time \<open>1/2048\<close> the rate is
  12 (the consumption divided by \<open>1/2048\<close>), not the consumption divided by
  \<open>max (1/2048) 0.001 = 0.001\<close>.
\<close>

theorem calculate_burn_rate_max_counterexample:
  "calculate_burn_rate (init (3/512) ''landing'' 0) 0 (1/2048) =
     Inr (\<lparr>actual_burn_rate = 12, deviation_percent = 0, anomaly_flag = False,
            current_fuel = 0\<rparr>,
          (init (3/512) ''landing'' 0)\<lparr>previous_fuel_mass := 0, previous_timestamp := 1/2048\<rparr>)
   \<and> (12::real) \<noteq> (3/512 - 0) / max (1/2048 - 0) 0.001"
  by (simp add: calculate_burn_rate_eq Let_def init_def dict_get_def PHASE_BURN_RATES_def
      BURN_RATE_TOLERANCE_def)

text \<open>
  C7. When the mission phase of the state is not a key of the profile tables, both
  lookups give their defaults (nominal rate 6.0, no remaining maneuver);
  \<open>calculate_burn_rate\<close> returns, with the deviation and the anomaly flag taken against
  6.0; \<open>predict_fuel_requirements\<close> returns the prediction of an empty maneuver list.
  Neither raises.
\<close>

theorem unknown_phase_defaults:
  assumes "mission_phase self \<notin> dom PHASE_BURN_RATES"
  shows "dict_get PHASE_BURN_RATES (mission_phase self) 6.0 = 6.0
    \<and> dict_get REMAINING_MANEUVERS (mission_phase self) [] = []
    \<and> (\<exists>c self'. calculate_burn_rate self f t = Inr (c, self')
          \<and> deviation_percent c = (actual_burn_rate c - 6.0) / 6.0 * 100
          \<and> anomaly_flag c = (\<bar>(actual_burn_rate c - 6.0) / 6.0\<bar> > BURN_RATE_TOLERANCE))
    \<and> predict_fuel_requirements self burn_rate anomaly
          = Inr \<lparr>required_fuel = 0, with_margin = 0, breakdown = [], confidence = 100\<rparr>"
proof -
  have "PHASE_BURN_RATES (mission_phase self) = None"
    using assms by (simp add: domIff)
  then have n: "dict_get PHASE_BURN_RATES (mission_phase self) 6 = 6"
    by (simp add: dict_get_def)
  have "mission_phase self \<notin> dom REMAINING_MANEUVERS"
    using assms by (simp add: dom_REMAINING_MANEUVERS)
  then have "REMAINING_MANEUVERS (mission_phase self) = None"
    by (simp add: domIff)
  then have m: "dict_get REMAINING_MANEUVERS (mission_phase self) [] = []"
    by (simp add: dict_get_def)
  have c: "\<exists>c self'. calculate_burn_rate self f t = Inr (c, self')
          \<and> deviation_percent c = (actual_burn_rate c - 6.0) / 6.0 * 100
          \<and> anomaly_flag c = (\<bar>(actual_burn_rate c - 6.0) / 6.0\<bar> > BURN_RATE_TOLERANCE)"
    using n by (simp add: calculate_burn_rate_eq Let_def)
  have p: "predict_fuel_requirements self burn_rate anomaly
          = Inr \<lparr>required_fuel = 0, with_margin = 0, breakdown = [], confidence = 100\<rparr>"
    by (simp add: predict_fuel_requirements_def m)
  from n m c p show ?thesis by simp
qed

theorem unknown_phase_defaults_witness:
  "mission_phase (init 500 ''hover'' 0) \<notin> dom PHASE_BURN_RATES
   \<and> calculate_burn_rate (init 500 ''hover'' 0) 497 0.5 =
       Inr (\<lparr>actual_burn_rate = 6, deviation_percent = 0, anomaly_flag = False,
              current_fuel = 497\<rparr>,
            (init 500 ''hover'' 0)\<lparr>previous_fuel_mass := 497, previous_timestamp := 0.5\<rparr>)
   \<and> predict_fuel_requirements (init 500 ''hover'' 0) 6 False
       = Inr \<lparr>required_fuel = 0, with_margin = 0, breakdown = [], confidence = 100\<rparr>"
proof -
  let ?s = "init 500 ''hover'' 0"
  have h: "mission_phase ?s \<notin> dom PHASE_BURN_RATES"
    by (simp add: init_def dom_PHASE_BURN_RATES)
  from unknown_phase_defaults [OF h, of 497 "0.5" 6 False]
  obtain c self' where
    r: "calculate_burn_rate ?s 497 0.5 = Inr (c, self')"
    and p: "predict_fuel_requirements ?s 6 False
          = Inr \<lparr>required_fuel = 0, with_margin = 0, breakdown = [], confidence = 100\<rparr>"
    by blast
  have "calculate_burn_rate ?s 497 0.5 =
       Inr (\<lparr>actual_burn_rate = 6, deviation_percent = 0, anomaly_flag = False,
              current_fuel = 497\<rparr>,
            ?s\<lparr>previous_fuel_mass := 497, previous_timestamp := 0.5\<rparr>)"
    using h by (simp add: calculate_burn_rate_eq Let_def init_def dict_get_def domIff
        BURN_RATE_TOLERANCE_def)
  with h p show ?thesis by simp
qed

subsection \<open>Requirement predictor\<close>

text \<open>
  C3. For every burn rate, negative ones included, every anomaly flag and every mission
  phase (those of the profile table and any other), \<open>predict_fuel_requirements\<close>
  returns a prediction whose \<open>with_margin\<close> is at least its \<open>required_fuel\<close>, and the
  uncertainty margin \<open>with_margin - required_fuel\<close> is 0.20 times the required fuel when
  the anomaly flag is set and 0.05 times the required fuel otherwise.
\<close>

theorem predict_fuel_requirements_margin:
  "\<exists>p. predict_fuel_requirements self burn_rate anomaly = Inr p
     \<and> required_fuel p \<le> with_margin p
     \<and> with_margin p - required_fuel p = (if anomaly then 0.20 else 0.05) * required_fuel p"
proof -
  obtain t b where
    l: "maneuver_loop burn_rate (dict_get REMAINING_MANEUVERS (mission_phase self) []) 0 []
          = Inr (t, b)"
    and t: "0 \<le> t"
    using maneuver_loop_nonneg [OF remaining_maneuvers_wellformed [of "mission_phase self"],
        where acc = 0 and burn_rate = burn_rate and bd = "[]"]
    by auto
  show ?thesis
    using t by (simp add: predict_fuel_requirements_def l py_truediv_def Let_def)
qed

text \<open>
  C6. For every mission phase whose list of remaining maneuvers is empty, every burn rate
  and every anomaly flag, \<open>predict_fuel_requirements\<close> returns required fuel 0, margined
  requirement 0, an empty breakdown and confidence 100.
\<close>

theorem predict_fuel_requirements_empty:
  "dict_get REMAINING_MANEUVERS (mission_phase self) [] = []
   \<Longrightarrow> predict_fuel_requirements self burn_rate anomaly
         = Inr \<lparr>required_fuel = 0, with_margin = 0, breakdown = [], confidence = 100\<rparr>"
  by (simp add: predict_fuel_requirements_def)

theorem predict_fuel_requirements_empty_witness:
  "dict_get REMAINING_MANEUVERS (mission_phase (init 118 ''landing'' 0)) [] = []
   \<and> predict_fuel_requirements (init 118 ''landing'' 0) 12 True
         = Inr \<lparr>required_fuel = 0, with_margin = 0, breakdown = [], confidence = 100\<rparr>"
proof -
  have h: "dict_get REMAINING_MANEUVERS (mission_phase (init 118 ''landing'' 0)) [] = []"
    by (simp add: init_def dict_get_def REMAINING_MANEUVERS_def)
  show ?thesis
    using h predict_fuel_requirements_empty [OF h, of 12 True] by simp
qed

subsection \<open>Alert generator\<close>

text \<open>
  C8. For every safety evaluation, consumption data and prediction (and every rendering
  of the numbers), the warning "WARNING: Abort-to-orbit window closing" is among the
  warnings of \<open>generate_alerts\<close> exactly when the evaluation is not abort-capable and its
  status is not CRITICAL. Under status CAUTION with insufficient fuel and no abort
  capability the warnings start with the two insufficient-fuel warnings followed by the
  abort-window warning.
\<close>

theorem generate_alerts_abort_window:
  "(''WARNING: Abort-to-orbit window closing''
      \<in> set (warnings (generate_alerts fmt fmt_signed safety_eval consumption_data prediction))
    \<longleftrightarrow> \<not> abort_capable safety_eval \<and> status safety_eval \<noteq> ''CRITICAL'')
   \<and> (status safety_eval = ''CAUTION'' \<and> \<not> fuel_sufficient safety_eval
        \<and> \<not> abort_capable safety_eval
      \<longrightarrow> take 3 (warnings (generate_alerts fmt fmt_signed safety_eval consumption_data
                                prediction))
          = [''CRITICAL: Insufficient fuel for nominal landing'',
             ''DEFICIT: '' @ fmt \<bar>fuel_margin safety_eval\<bar> @ '' kg shortfall'',
             ''WARNING: Abort-to-orbit window closing''])"
  by (simp add: generate_alerts_def Let_def)

theorem generate_alerts_abort_window_witness:
  "status \<lparr>status = ''CAUTION'', fuel_margin = - 10, abort_capable = False,
            time_remaining = PosInf, fuel_sufficient = False\<rparr> = ''CAUTION''
   \<and> \<not> fuel_sufficient \<lparr>status = ''CAUTION'', fuel_margin = - 10, abort_capable = False,
            time_remaining = PosInf, fuel_sufficient = False\<rparr>
   \<and> \<not> abort_capable \<lparr>status = ''CAUTION'', fuel_margin = - 10, abort_capable = False,
            time_remaining = PosInf, fuel_sufficient = False\<rparr>
   \<and> warnings (generate_alerts (\<lambda>x. ''10.0'') (\<lambda>x. ''+0.0'')
         \<lparr>status = ''CAUTION'', fuel_margin = - 10, abort_capable = False,
            time_remaining = PosInf, fuel_sufficient = False\<rparr>
         \<lparr>actual_burn_rate = 6, deviation_percent = 0, anomaly_flag = False,
            current_fuel = 90\<rparr>
         \<lparr>required_fuel = 0, with_margin = 0, breakdown = [], confidence = 100\<rparr>)
       = [''CRITICAL: Insufficient fuel for nominal landing'',
          ''DEFICIT: 10.0 kg shortfall'',
          ''WARNING: Abort-to-orbit window closing'']"
  using generate_alerts_abort_window
    [of "\<lambda>x. ''10.0''" "\<lambda>x. ''+0.0''"
        "\<lparr>status = ''CAUTION'', fuel_margin = - 10, abort_capable = False,
            time_remaining = PosInf, fuel_sufficient = False\<rparr>"
        "\<lparr>actual_burn_rate = 6, deviation_percent = 0, anomaly_flag = False,
            current_fuel = 90\<rparr>"
        "\<lparr>required_fuel = 0, with_margin = 0, breakdown = [], confidence = 100\<rparr>"]
  by (simp add: generate_alerts_def Let_def)

subsection \<open>State: what a cycle and a phase change modify\<close>

text \<open>
  C9. A call of \<open>monitor_cycle\<close> returns a snapshot (it does not raise) and leaves the
  state with \<open>previous_fuel_mass\<close> set to the current fuel mass and
  \<open>previous_timestamp\<close> set to the time of the call; these are the only two fields
  that change: \<open>current_fuel_mass\<close>, \<open>altitude\<close>, \<open>velocity\<close>, \<open>mission_phase\<close> and
  \<open>alert_history\<close> are as before.
\<close>

theorem monitor_cycle_frame:
  "\<exists>snapshot self'.
     monitor_cycle fmt fmt_signed self now stamp = Inr (snapshot, self')
     \<and> self' = self\<lparr>previous_fuel_mass := current_fuel_mass self, previous_timestamp := now\<rparr>
     \<and> previous_fuel_mass self' = current_fuel_mass self
     \<and> previous_timestamp self' = now
     \<and> current_fuel_mass self' = current_fuel_mass self
     \<and> altitude self' = altitude self
     \<and> velocity self' = velocity self
     \<and> mission_phase self' = mission_phase self
     \<and> alert_history self' = alert_history self"
proof -
  let ?s1 = "self\<lparr>previous_fuel_mass := current_fuel_mass self, previous_timestamp := now\<rparr>"
  obtain c where
    c: "calculate_burn_rate self (current_fuel_mass self) now = Inr (c, ?s1)"
    by (simp add: calculate_burn_rate_eq Let_def)
  obtain p where
    p: "predict_fuel_requirements ?s1 (actual_burn_rate c) (anomaly_flag c) = Inr p"
    using predict_fuel_requirements_returns by blast
  have "\<exists>snapshot. monitor_cycle fmt fmt_signed self now stamp = Inr (snapshot, ?s1)"
    by (simp add: monitor_cycle_def c p evaluate_safety_margins_eq Let_def)
  then show ?thesis
    by auto
qed

text \<open>
  C10. For a phase that is not a key of \<open>PHASE_BURN_RATES\<close>, \<open>set_mission_phase\<close> returns
  the object as it was: the mission phase and every other field are unchanged, and nothing
  is raised (the function has no error result).
\<close>

theorem set_mission_phase_unknown:
  "phase \<notin> dom PHASE_BURN_RATES \<Longrightarrow> set_mission_phase self phase = self"
  by (simp add: set_mission_phase_def)

theorem set_mission_phase_unknown_witness:
  "''orbit_insertion'' \<notin> dom PHASE_BURN_RATES
   \<and> set_mission_phase (init 853 ''landing'' 0) ''orbit_insertion'' = init 853 ''landing'' 0"
proof -
  have h: "''orbit_insertion'' \<notin> dom PHASE_BURN_RATES"
    by (simp add: dom_PHASE_BURN_RATES)
  show ?thesis
    using h set_mission_phase_unknown [OF h, of "init 853 ''landing'' 0"] by simp
qed

end
